theory Spec2Isabelle
  imports Complex_Main "HOL-Library.Log_Nat"
begin

section \<open>Numeric kernels of aicpp: activations, reduction engine, losses\<close>

text \<open>
  The kernels of \<^verbatim>\<open>activation.cpp\<close> and \<^verbatim>\<open>loss.cpp\<close> are templates over a
  floating-point element type \<open>T\<close> and a range type. A range is modelled as a list.
  Where a property is about the mathematical value of a kernel, \<open>T\<close> is the type
  \<^typ>\<open>real\<close> (exact arithmetic: no rounding, no overflow, no NaN). The reduction
  engine only needs \<open>0\<close> and \<open>+\<close> of its result type and is kept polymorphic, as the
  template is, so that it can also be instantiated with a rounding addition.
  \<^verbatim>\<open>softmax\<close>, whose guarantee is about the range of its entries, is modelled on
  \<^verbatim>\<open>double\<close> with underflow, overflow and NaN written out.

  \<^verbatim>\<open>loss.cpp\<close> holds three successive revisions of namespace \<open>loss\<close>. The model
  follows the most complete one (with \<^verbatim>\<open>apply_and_accumulate\<close>, \<^verbatim>\<open>hinge\<close> and
  \<^verbatim>\<open>tr\<close>); the engine of the first revision, \<^verbatim>\<open>_apply_and_sum\<close>, has the same
  body and is modelled as \<open>apply_and_sum\<close>.
\<close>

subsection \<open>activation.cpp\<close>

definition sigmoid :: "real \<Rightarrow> real" where
  "sigmoid z = 1 / (1 + exp (- z))"

definition glu :: "real \<Rightarrow> real" where
  "glu z = z * sigmoid z"

definition swish :: "real \<Rightarrow> real" where
  "swish z = glu z"

subsection \<open>Range adaptors and the fold of the standard library\<close>

text \<open>
  \<^verbatim>\<open>std::views::zip\<close> pairs the elements of its ranges position by position and ends
  as soon as one of them ends; that is \<^const>\<open>zip\<close> on lists.
  \<^verbatim>\<open>std::views::zip_transform(f, r0, r1)\<close> is the view of \<open>f\<close> applied to each pair.
\<close>

definition zip_transform :: "('a \<Rightarrow> 'b \<Rightarrow> 'c) \<Rightarrow> 'a list \<Rightarrow> 'b list \<Rightarrow> 'c list" where
  "zip_transform f r0 r1 = map (\<lambda>(a, b). f a b) (zip r0 r1)"

text \<open>
  \<^verbatim>\<open>std::ranges::fold_right(first, last, init, f)\<close> walks the range backwards: it
  starts at \<open>last\<close>, and each step sets \<open>accum = f(*--tail, accum)\<close> until \<open>tail\<close>
  reaches \<open>first\<close>. The walk over the reversed list is a \<^const>\<open>foldl\<close> whose step
  takes the element as the left argument of \<open>f\<close>.
\<close>

definition fold_right :: "'a list \<Rightarrow> 'b \<Rightarrow> ('a \<Rightarrow> 'b \<Rightarrow> 'b) \<Rightarrow> 'b" where
  "fold_right xs init f = foldl (\<lambda>accum x. f x accum) init (rev xs)"

subsection \<open>loss.cpp: the reduction engine\<close>

definition apply_and_accumulate ::
    "('a \<Rightarrow> 'b \<Rightarrow> 'c::{zero,plus}) \<Rightarrow> 'a list \<Rightarrow> 'b list \<Rightarrow> 'c" where
  "apply_and_accumulate f r0 r1 =
     (let applied = zip_transform f r0 r1 in fold_right applied 0 (+))"

definition apply_and_sum ::
    "('a \<Rightarrow> 'a \<Rightarrow> 'c::{zero,plus}) \<Rightarrow> 'a list \<Rightarrow> 'a list \<Rightarrow> 'c" where
  "apply_and_sum f r0 r1 =
     (let applied = zip_transform f r0 r1 in fold_right applied 0 (+))"

subsection \<open>loss.cpp: the losses\<close>

definition manhattan :: "real \<Rightarrow> real \<Rightarrow> real" where
  "manhattan t1 t2 = \<bar>t1 - t2\<bar>"

definition L1 :: "real list \<Rightarrow> real list \<Rightarrow> real" where
  "L1 ground predicted =
     foldl (\<lambda>l1 (gnd, pred). l1 + \<bar>gnd - pred\<bar>) 0 (zip ground predicted)"

definition L1_f :: "real list \<Rightarrow> real list \<Rightarrow> real" where
  "L1_f ground predicted = apply_and_accumulate manhattan ground predicted"

definition euc_dist :: "real \<Rightarrow> real \<Rightarrow> real" where
  "euc_dist a b = (a - b) ^ 2"

definition L2 :: "real list \<Rightarrow> real list \<Rightarrow> real" where
  "L2 ground predicted =
     sqrt (foldl (\<lambda>l2 (gnd, pred). l2 + (gnd - pred) ^ 2) 0 (zip ground predicted))"

definition L2_f :: "real list \<Rightarrow> real list \<Rightarrow> real" where
  "L2_f ground predicted = sqrt (apply_and_accumulate euc_dist ground predicted)"

text \<open>The lambda \<open>hbr\<close> of \<^verbatim>\<open>huber\<close>, with its captured \<open>threshold\<close> as first argument.\<close>

definition hbr :: "real \<Rightarrow> real \<Rightarrow> real" where
  "hbr threshold diff =
     (if diff \<le> threshold then diff ^ 2 / 2
      else threshold * \<bar>diff\<bar> - threshold / 2)"

definition huber :: "real list \<Rightarrow> real list \<Rightarrow> real \<Rightarrow> real" where
  "huber ground predicted threshold =
     foldl (\<lambda>huber (gnd, pred). huber + hbr threshold (gnd - pred)) 0 (zip ground predicted)"

text \<open>The two-argument lambda \<open>hbr\<close> of \<^verbatim>\<open>huber_f\<close>.\<close>

definition hbr_f :: "real \<Rightarrow> real \<Rightarrow> real \<Rightarrow> real" where
  "hbr_f threshold a b =
     (let diff = a - b in
      if diff \<le> threshold then diff ^ 2 / 2
      else threshold * \<bar>diff\<bar> - threshold / 2)"

definition huber_f :: "real list \<Rightarrow> real list \<Rightarrow> real \<Rightarrow> real" where
  "huber_f ground predicted threshold = apply_and_accumulate (hbr_f threshold) ground predicted"

text \<open>
  \<^verbatim>\<open>std::log\<close> is \<^const>\<open>ln\<close> and the division by \<^verbatim>\<open>std::ranges::size(ground)\<close> is
  the division of \<^typ>\<open>real\<close>. Outside the domain of the logarithm, and for an empty
  \<open>ground\<close>, the C++ value is an IEEE special value, which \<^typ>\<open>real\<close> does not have;
  no statement below depends on the value HOL gives to \<open>ln x\<close> for \<open>x \<le> 0\<close> or to
  \<open>x / 0\<close>.
\<close>

definition bce_term :: "real \<Rightarrow> real \<Rightarrow> real" where
  "bce_term gnd pred = gnd * ln pred + (gnd - 1) * ln (1 - pred)"

definition bce :: "real list \<Rightarrow> real list \<Rightarrow> real" where
  "bce ground predicted =
     - (foldl (\<lambda>bce (gnd, pred). bce + (gnd * ln pred + (gnd - 1) * ln (1 - pred))) 0
          (zip ground predicted)) / real (length ground)"

definition bce_f :: "real list \<Rightarrow> real list \<Rightarrow> real" where
  "bce_f ground predicted =
     (let bce = apply_and_accumulate bce_term ground predicted
      in - bce / real (length ground))"

definition ce_term :: "real \<Rightarrow> real \<Rightarrow> real" where
  "ce_term gnd pred = gnd * ln pred"

definition ce :: "real list \<Rightarrow> real list \<Rightarrow> real" where
  "ce ground predicted =
     - (foldl (\<lambda>ce (gnd, pred). ce + gnd * ln pred) 0 (zip ground predicted))
       / real (length ground)"

definition ce_f :: "real list \<Rightarrow> real list \<Rightarrow> real" where
  "ce_f ground predicted =
     (let ce = apply_and_accumulate ce_term ground predicted
      in - ce / real (length ground))"

definition kl_term :: "real \<Rightarrow> real \<Rightarrow> real" where
  "kl_term gnd pred = gnd * ln (gnd / pred)"

definition kl :: "real list \<Rightarrow> real list \<Rightarrow> real" where
  "kl ground predicted = apply_and_accumulate kl_term ground predicted"

definition hinge_term :: "real \<Rightarrow> real \<Rightarrow> real" where
  "hinge_term gnd pred = max 0 (1 - gnd * pred)"

definition hinge :: "real list \<Rightarrow> real list \<Rightarrow> real" where
  "hinge ground predicted = apply_and_accumulate hinge_term ground predicted"

definition tr :: "real list \<Rightarrow> real list \<Rightarrow> real list \<Rightarrow> real \<Rightarrow> real" where
  "tr anchor positive negative margin =
     (let dist_pos = L2_f anchor positive;
          dist_neg = L2_f anchor negative
      in max (dist_pos - dist_neg + margin) 0)"

subsection \<open>The outcome of a call\<close>

text \<open>
  The specification names one error, \<open>LengthMismatch\<close>. The outcome of a call is a
  value of \<open>error + 'c\<close>, with \<open>Inl\<close> for a failure. No function of
  \<^verbatim>\<open>loss.cpp\<close> contains a \<^verbatim>\<open>throw\<close>, a comparison of sizes or an early return,
  and the views and folds it calls do not throw on arithmetic element types: in every
  revision the body runs to its \<^verbatim>\<open>return\<close>, so the outcome of calling a function
  \<open>fn\<close> of two ranges is \<open>Inr\<close> of the value that \<open>fn\<close> computes.
\<close>

datatype error = LengthMismatch

definition call :: "('a list \<Rightarrow> 'b list \<Rightarrow> 'c) \<Rightarrow> 'a list \<Rightarrow> 'b list \<Rightarrow> error + 'c" where
  "call fn r0 r1 = Inr (fn r0 r1)"

subsection \<open>The element type \<^verbatim>\<open>double\<close>, where rounding matters\<close>

text \<open>
  The demonstration program instantiates every kernel with \<^verbatim>\<open>std::vector<double>\<close>.
  The sum of two doubles is the exact sum rounded to the nearest binary64 number, ties
  going to the even significand. \<open>round_binary64 n\<close> is that rounding for an integer
  \<open>n\<close> (below the overflow threshold \<open>2 ^ 1024\<close>): an integer of at most 53 bits is a
  binary64 number; a longer one loses its \<open>k\<close> low bits, where \<open>k\<close> is its length
  minus 53. \<open>Double n\<close> is the double whose value is the integer \<open>n\<close>; doubles
  with a fractional part are not needed below.
\<close>

definition round_binary64 :: "int \<Rightarrow> int" where
  "round_binary64 n =
     (let k = bitlen \<bar>n\<bar> - 53 in
      if k \<le> 0 then n
      else
        let q = \<bar>n\<bar> div 2 ^ nat k;
            r = \<bar>n\<bar> mod 2 ^ nat k;
            half = 2 ^ nat (k - 1)
        in sgn n * (if r > half \<or> (r = half \<and> odd q) then q + 1 else q) * 2 ^ nat k)"

datatype double = Double int

instantiation double :: "{zero,plus}"
begin

definition zero_double :: double where
  "zero_double = Double 0"

fun plus_double :: "double \<Rightarrow> double \<Rightarrow> double" where
  "plus_double (Double a) (Double b) = Double (round_binary64 (a + b))"

instance ..

end

text \<open>\<^verbatim>\<open>loss::distance::manhattan<double>\<close>: the rounded difference, then \<^verbatim>\<open>std::abs\<close>.\<close>

fun manhattan_double :: "double \<Rightarrow> double \<Rightarrow> double" where
  "manhattan_double (Double t1) (Double t2) = Double \<bar>round_binary64 (t1 - t2)\<bar>"

subsection \<open>The element type \<^verbatim>\<open>double\<close>, where the range matters: \<^verbatim>\<open>softmax\<close>\<close>

text \<open>
  The result of an operation on doubles is a finite number, an infinity or NaN. The
  values that \<^verbatim>\<open>softmax\<close> computes are exponentials, their sums and their quotients,
  so they are never negative and \<open>Infinity\<close> is the positive one. The least positive
  double is \<open>2\<^sup>-\<^sup>1\<^sup>0\<^sup>7\<^sup>4\<close>: an exact result of magnitude at most half of it
  becomes 0 (\<open>underflows\<close>). The largest finite double is \<open>2\<^sup>1\<^sup>0\<^sup>2\<^sup>4 - 2\<^sup>9\<^sup>7\<^sup>1\<close>: an
  exact result of at least \<open>2\<^sup>1\<^sup>0\<^sup>2\<^sup>4 - 2\<^sup>9\<^sup>7\<^sup>0\<close> becomes infinity (\<open>overflows\<close>).
  Between the two thresholds \<open>to_double\<close> keeps the exact result: the rounding of a
  finite non-zero result to 53 bits is not modelled here, so \<open>Finite v\<close> stands for
  the double nearest to \<open>v\<close>. \<^verbatim>\<open>exp\<close> of the C library is taken as the rounded exact
  exponential.
\<close>

datatype fpval = Finite real | Infinity | NaN

definition overflows :: "real \<Rightarrow> bool" where
  "overflows v \<longleftrightarrow> 2 ^ 1024 - 2 ^ 970 \<le> v"

definition underflows :: "real \<Rightarrow> bool" where
  "underflows v \<longleftrightarrow> \<bar>v\<bar> \<le> 1 / 2 ^ 1075"

definition to_double :: "real \<Rightarrow> fpval" where
  "to_double v =
     (if overflows v then Infinity else if underflows v then Finite 0 else Finite v)"

instantiation fpval :: "{zero,plus}"
begin

definition zero_fpval :: fpval where
  "zero_fpval = Finite 0"

fun plus_fpval :: "fpval \<Rightarrow> fpval \<Rightarrow> fpval" where
  "plus_fpval NaN b = NaN"
| "plus_fpval a NaN = NaN"
| "plus_fpval Infinity b = Infinity"
| "plus_fpval a Infinity = Infinity"
| "plus_fpval (Finite a) (Finite b) = to_double (a + b)"

instance ..

end




subsection \<open>Folds by index, as the specification words them\<close>

text \<open>
  The specification describes the engine by indices: "from index 0 to N-1, applies f
  to the i-th tuple of elements, and accumulates results by addition in strictly
  increasing index order (left-to-right), starting from an additive identity of 0".
  That is \<open>left_fold_by_index\<close>: \<open>((0 + f\<^sub>0) + f\<^sub>1) + \<dots>\<close>. Its mirror image
  \<open>right_fold_by_index\<close> is \<open>f\<^sub>0 + (f\<^sub>1 + (\<dots> + (f\<^bsub>N-1\<^esub> + 0)))\<close>: the
  first addition made is that of the last element to 0.
\<close>

definition left_fold_by_index ::
    "('a \<Rightarrow> 'b \<Rightarrow> 'c::{zero,plus}) \<Rightarrow> 'a list \<Rightarrow> 'b list \<Rightarrow> 'c" where
  "left_fold_by_index f r0 r1 =
     foldl (\<lambda>acc i. acc + f (r0 ! i) (r1 ! i)) 0 [0..<length r0]"

definition right_fold_by_index ::
    "('a \<Rightarrow> 'b \<Rightarrow> 'c::{zero,plus}) \<Rightarrow> 'a list \<Rightarrow> 'b list \<Rightarrow> 'c" where
  "right_fold_by_index f r0 r1 =
     foldr (\<lambda>i acc. f (r0 ! i) (r1 ! i) + acc) [0..<length r0] 0"

section \<open>Activations\<close>

text \<open>
  Claim C8. For every scalar \<open>z\<close>, \<open>swish z = glu z\<close>, and this common value is
  \<open>z * sigmoid z = z / (1 + exp (- z))\<close>.
\<close>

theorem swish_is_glu:
  "swish z = glu z \<and> glu z = z * sigmoid z \<and> z * sigmoid z = z / (1 + exp (- z))"
  by (simp add: swish_def glu_def sigmoid_def)

section \<open>The reduction engine\<close>

subsection \<open>The fold and the zipped view\<close>

lemma fold_right_foldr: "fold_right xs init f = foldr f xs init"
  by (simp add: fold_right_def foldr_conv_foldl)

lemma length_zip_transform: "length (zip_transform f r0 r1) = min (length r0) (length r1)"
  by (simp add: zip_transform_def)

lemma zip_transform_nth:
  "i < min (length r0) (length r1) \<Longrightarrow> zip_transform f r0 r1 ! i = f (r0 ! i) (r1 ! i)"
  by (simp add: zip_transform_def)

lemma zip_transform_map_index:
  "length r0 = length r1 \<Longrightarrow>
   zip_transform f r0 r1 = map (\<lambda>i. f (r0 ! i) (r1 ! i)) [0..<length r0]"
  by (rule nth_equalityI) (simp_all add: length_zip_transform zip_transform_nth)

lemma zip_transform_take:
  "zip_transform f (take (min (length r0) (length r1)) r0) (take (min (length r0) (length r1)) r1)
     = zip_transform f r0 r1"
  by (simp add: zip_transform_def flip: take_zip)

lemma engine_take:
  "apply_and_accumulate f (take (min (length r0) (length r1)) r0)
       (take (min (length r0) (length r1)) r1)
     = apply_and_accumulate f r0 r1"
  by (simp only: apply_and_accumulate_def zip_transform_take)

lemma engine_old_take:
  "apply_and_sum f (take (min (length r0) (length r1)) r0) (take (min (length r0) (length r1)) r1)
     = apply_and_sum f r0 r1"
  by (simp only: apply_and_sum_def zip_transform_take)

lemma engine_old_eq: "apply_and_sum f r0 r1 = apply_and_accumulate f r0 r1"
  by (simp add: apply_and_sum_def apply_and_accumulate_def)

subsection \<open>Exact arithmetic: both fold directions are the sum\<close>

lemma sum_list_zip_transform:
  fixes f :: "'a \<Rightarrow> 'b \<Rightarrow> 'c::comm_monoid_add"
  shows "sum_list (zip_transform f r0 r1)
           = (\<Sum>i<min (length r0) (length r1). f (r0 ! i) (r1 ! i))"
  by (simp add: sum_list_sum_nth length_zip_transform zip_transform_nth atLeast0LessThan)

lemma engine_sum:
  fixes f :: "'a \<Rightarrow> 'b \<Rightarrow> 'c::comm_monoid_add"
  shows "apply_and_accumulate f r0 r1
           = (\<Sum>i<min (length r0) (length r1). f (r0 ! i) (r1 ! i))"
  by (simp add: apply_and_accumulate_def fold_right_foldr sum_list.eq_foldr [symmetric]
      sum_list_zip_transform)

lemma loop_sum_list:
  fixes F :: "'a \<Rightarrow> 'b \<Rightarrow> 'c::monoid_add"
  shows "foldl (\<lambda>acc (a, b). acc + F a b) s ps = s + sum_list (map (\<lambda>(a, b). F a b) ps)"
  by (induction ps arbitrary: s) (auto simp: add.assoc)

lemma loop_sum:
  fixes F :: "'a \<Rightarrow> 'b \<Rightarrow> 'c::comm_monoid_add"
  shows "foldl (\<lambda>acc (a, b). acc + F a b) 0 (zip r0 r1)
           = (\<Sum>i<min (length r0) (length r1). F (r0 ! i) (r1 ! i))"
proof -
  have "foldl (\<lambda>acc (a, b). acc + F a b) 0 (zip r0 r1) = sum_list (zip_transform F r0 r1)"
    by (simp add: loop_sum_list zip_transform_def)
  then show ?thesis
    by (simp add: sum_list_zip_transform)
qed

lemma foldl_index_sum:
  fixes g :: "nat \<Rightarrow> 'c::comm_monoid_add"
  shows "foldl (\<lambda>acc i. acc + g i) s [0..<n] = s + (\<Sum>i<n. g i)"
  by (induction n) (simp_all add: add.assoc)

lemma left_fold_sum:
  fixes f :: "'a \<Rightarrow> 'b \<Rightarrow> 'c::comm_monoid_add"
  shows "left_fold_by_index f r0 r1 = (\<Sum>i<length r0. f (r0 ! i) (r1 ! i))"
  by (simp add: left_fold_by_index_def foldl_index_sum)

subsection \<open>The direction of the fold\<close>

lemma engine_right_fold:
  "length r0 = length r1 \<Longrightarrow> apply_and_accumulate f r0 r1 = right_fold_by_index f r0 r1"
  by (simp add: apply_and_accumulate_def fold_right_foldr zip_transform_map_index
      right_fold_by_index_def foldr_map comp_def)

text \<open>
  Claim C2, as the specification states it: for every element function \<open>f\<close> and every
  pair of equal-length sequences, the engine returns the left fold from 0 in strictly
  increasing index order. On \<^verbatim>\<open>double\<close> this fails. For the sequences
  \<open>[2\<^sup>5\<^sup>3, 1, 1]\<close> and \<open>[0, 0, 0]\<close> and the element function \<^verbatim>\<open>manhattan\<close>, the
  engine adds from the right, \<open>2\<^sup>5\<^sup>3 + (1 + (1 + 0))\<close>, which is the binary64 number
  \<open>2\<^sup>5\<^sup>3 + 2\<close>; the left fold \<open>((0 + 2\<^sup>5\<^sup>3) + 1) + 1\<close> rounds \<open>2\<^sup>5\<^sup>3 + 1\<close> back
  to \<open>2\<^sup>5\<^sup>3\<close> twice.
\<close>

theorem engine_left_fold_counterexample:
  "length [Double 9007199254740992, Double 1, Double 1] = length [Double 0, Double 0, Double 0] \<and>
   apply_and_accumulate manhattan_double
       [Double 9007199254740992, Double 1, Double 1] [Double 0, Double 0, Double 0]
     = Double 9007199254740994 \<and>
   left_fold_by_index manhattan_double
       [Double 9007199254740992, Double 1, Double 1] [Double 0, Double 0, Double 0]
     = Double 9007199254740992 \<and>
   apply_and_accumulate manhattan_double
       [Double 9007199254740992, Double 1, Double 1] [Double 0, Double 0, Double 0]
     \<noteq> left_fold_by_index manhattan_double
       [Double 9007199254740992, Double 1, Double 1] [Double 0, Double 0, Double 0]"
  by code_simp

text \<open>
  Claim C2, amended. For every element function \<open>f\<close> and every pair of equal-length
  sequences of length \<open>N\<close>, the engine (in both revisions) returns the right fold
  \<open>f\<^sub>0 + (f\<^sub>1 + (\<dots> + (f\<^bsub>N-1\<^esub> + 0)))\<close>, where \<open>f\<^sub>i\<close> is \<open>f\<close> applied to the \<open>i\<close>-th pair:
  it starts from 0 and adds in strictly decreasing index order. This holds for any
  addition, rounding or not. Under exact arithmetic the value is also that of the left
  fold from 0 in increasing index order.
\<close>

theorem engine_is_right_fold:
  fixes f :: "'a \<Rightarrow> 'a \<Rightarrow> 'c::{zero,plus}" and g :: "'a \<Rightarrow> 'a \<Rightarrow> real"
  assumes "length r0 = length r1"
  shows "apply_and_accumulate f r0 r1 = right_fold_by_index f r0 r1 \<and>
         apply_and_sum f r0 r1 = right_fold_by_index f r0 r1 \<and>
         apply_and_accumulate g r0 r1 = left_fold_by_index g r0 r1"
proof (intro conjI)
  show "apply_and_accumulate f r0 r1 = right_fold_by_index f r0 r1"
    using assms by (rule engine_right_fold)
  then show "apply_and_sum f r0 r1 = right_fold_by_index f r0 r1"
    by (simp add: engine_old_eq)
  show "apply_and_accumulate g r0 r1 = left_fold_by_index g r0 r1"
    using assms by (simp add: engine_sum left_fold_sum)
qed

theorem engine_is_right_fold_witness:
  "length [1, 2 :: real] = length [3, 5 :: real] \<and>
   apply_and_accumulate manhattan [1, 2] [3, 5] = right_fold_by_index manhattan [1, 2] [3, 5] \<and>
   apply_and_sum manhattan [1, 2] [3, 5] = right_fold_by_index manhattan [1, 2] [3, 5] \<and>
   left_fold_by_index manhattan [1, 2] [3, 5] = 5 \<and>
   apply_and_accumulate manhattan [1, 2] [3, 5] = 5"
  using engine_is_right_fold [of "[1, 2]" "[3, 5]" manhattan manhattan]
  by (simp add: left_fold_by_index_def manhattan_def)

section \<open>Sequences of differing lengths\<close>

text \<open>
  Claim C1, as the specification states it: a call of a paired function with two
  sequences of differing lengths fails with \<open>LengthMismatch\<close>. The code has no such
  check: with \<open>[1, 2]\<close> and \<open>[5]\<close> the engine and \<^verbatim>\<open>L1_f\<close> return \<open>\<bar>1 - 5\<bar> = 4\<close>.
\<close>

theorem length_mismatch_counterexample:
  "length [1, 2 :: real] \<noteq> length [5 :: real] \<and>
   call (apply_and_accumulate manhattan) [1, 2] [5] = Inr 4 \<and>
   call (apply_and_accumulate manhattan) [1, 2] [5] \<noteq> Inl LengthMismatch \<and>
   call L1_f [1, 2] [5] = Inr 4"
  by (simp add: call_def L1_f_def engine_sum manhattan_def)

text \<open>
  Claim C1, amended. A call of the reduction engine (either revision), or of a loss built
  on it, with two sequences of differing lengths \<open>N\<close> and \<open>M\<close> does not fail and makes no
  length check: it returns what it returns on the two sequences cut to their first
  \<open>min N M\<close> elements (\<^verbatim>\<open>bce_f\<close> and \<^verbatim>\<open>ce_f\<close> still divide by the full length of
  \<open>ground\<close>).
\<close>

theorem no_length_check:
  fixes f :: "'a \<Rightarrow> 'a \<Rightarrow> 'c::{zero,plus}" and r0 r1 :: "'a list"
    and ground predicted :: "real list"
  assumes "length r0 \<noteq> length r1" and "length ground \<noteq> length predicted"
  shows "(let n = min (length r0) (length r1) in
            call (apply_and_accumulate f) r0 r1
              = Inr (apply_and_accumulate f (take n r0) (take n r1)) \<and>
            call (apply_and_sum f) r0 r1 = Inr (apply_and_sum f (take n r0) (take n r1))) \<and>
         (let n = min (length ground) (length predicted);
              g = take n ground; p = take n predicted in
            call L1_f ground predicted = Inr (L1_f g p) \<and>
            call L2_f ground predicted = Inr (L2_f g p) \<and>
            call (\<lambda>g p. huber_f g p threshold) ground predicted = Inr (huber_f g p threshold) \<and>
            call bce_f ground predicted
              = Inr (- apply_and_accumulate bce_term g p / real (length ground)) \<and>
            call ce_f ground predicted
              = Inr (- apply_and_accumulate ce_term g p / real (length ground)) \<and>
            call kl ground predicted = Inr (kl g p) \<and>
            call hinge ground predicted = Inr (hinge g p))"
  unfolding Let_def call_def L1_f_def L2_f_def huber_f_def bce_f_def ce_f_def kl_def hinge_def
    engine_take engine_old_take
  by simp

theorem no_length_check_witness:
  "length [1, 2 :: real] \<noteq> length [5 :: real] \<and>
   call (apply_and_accumulate manhattan) [1, 2] [5] = Inr (apply_and_accumulate manhattan [1] [5]) \<and>
   call (apply_and_sum manhattan) [1, 2] [5] = Inr (apply_and_sum manhattan [1] [5]) \<and>
   call L1_f [1, 2] [5] = Inr (L1_f [1] [5]) \<and>
   call hinge [1, 2] [5] = Inr (hinge [1] [5])"
  using no_length_check [of "[1, 2]" "[5]" "[1, 2]" "[5]" manhattan] by (simp add: Let_def)

section \<open>The losses as sums over the zipped pairs\<close>

lemma L1_sum: "L1 g p = (\<Sum>i<min (length g) (length p). \<bar>g ! i - p ! i\<bar>)"
  unfolding L1_def by (rule loop_sum)

lemma L1_f_sum: "L1_f g p = (\<Sum>i<min (length g) (length p). \<bar>g ! i - p ! i\<bar>)"
  by (simp add: L1_f_def engine_sum manhattan_def)

lemma L2_sum: "L2 g p = sqrt (\<Sum>i<min (length g) (length p). (g ! i - p ! i) ^ 2)"
  unfolding L2_def by (simp only: loop_sum)

lemma L2_f_sum: "L2_f g p = sqrt (\<Sum>i<min (length g) (length p). (g ! i - p ! i) ^ 2)"
  by (simp add: L2_f_def engine_sum euc_dist_def)

lemma huber_sum: "huber g p t = (\<Sum>i<min (length g) (length p). hbr t (g ! i - p ! i))"
  unfolding huber_def by (rule loop_sum)

lemma hbr_f_hbr: "hbr_f t a b = hbr t (a - b)"
  by (simp add: hbr_f_def hbr_def Let_def)

lemma huber_f_sum: "huber_f g p t = (\<Sum>i<min (length g) (length p). hbr t (g ! i - p ! i))"
  by (simp add: huber_f_def engine_sum hbr_f_hbr)

lemma bce_sum:
  "bce g p = - (\<Sum>i<min (length g) (length p). bce_term (g ! i) (p ! i)) / real (length g)"
  unfolding bce_def bce_term_def by (simp only: loop_sum)

lemma bce_f_sum:
  "bce_f g p = - (\<Sum>i<min (length g) (length p). bce_term (g ! i) (p ! i)) / real (length g)"
  by (simp add: bce_f_def engine_sum Let_def)

lemma ce_sum:
  "ce g p = - (\<Sum>i<min (length g) (length p). ce_term (g ! i) (p ! i)) / real (length g)"
  unfolding ce_def ce_term_def by (simp only: loop_sum)

lemma ce_f_sum:
  "ce_f g p = - (\<Sum>i<min (length g) (length p). ce_term (g ! i) (p ! i)) / real (length g)"
  by (simp add: ce_f_def engine_sum Let_def)

lemma kl_sum: "kl g p = (\<Sum>i<min (length g) (length p). kl_term (g ! i) (p ! i))"
  by (simp add: kl_def engine_sum)

lemma hinge_sum: "hinge g p = (\<Sum>i<min (length g) (length p). hinge_term (g ! i) (p ! i))"
  by (simp add: hinge_def engine_sum)

text \<open>
  Claim C9. When the two sequences passed to \<^verbatim>\<open>L1\<close>, \<^verbatim>\<open>L2\<close>, \<^verbatim>\<open>huber\<close>,
  \<^verbatim>\<open>bce\<close>, \<^verbatim>\<open>ce\<close>, \<^verbatim>\<open>kl\<close> or \<^verbatim>\<open>hinge\<close> have differing lengths \<open>N\<close> and \<open>M\<close>,
  the call does not fail; it returns normally, and the reduction runs over exactly the
  first \<open>min N M\<close> pairs, because the zip ends with the shorter sequence. (The
  post-processing of \<^verbatim>\<open>bce\<close> and \<^verbatim>\<open>ce\<close> divides that reduction by the size of
  \<open>ground\<close>, as in the code.)
\<close>

theorem losses_stop_at_shorter:
  fixes ground predicted :: "real list"
  assumes "length ground \<noteq> length predicted"
  shows "(let n = min (length ground) (length predicted) in
     call L1 ground predicted = Inr (\<Sum>i<n. \<bar>ground ! i - predicted ! i\<bar>) \<and>
     call L2 ground predicted = Inr (sqrt (\<Sum>i<n. (ground ! i - predicted ! i) ^ 2)) \<and>
     call (\<lambda>g p. huber g p threshold) ground predicted
       = Inr (\<Sum>i<n. hbr threshold (ground ! i - predicted ! i)) \<and>
     call bce ground predicted
       = Inr (- (\<Sum>i<n. bce_term (ground ! i) (predicted ! i)) / real (length ground)) \<and>
     call ce ground predicted
       = Inr (- (\<Sum>i<n. ce_term (ground ! i) (predicted ! i)) / real (length ground)) \<and>
     call kl ground predicted = Inr (\<Sum>i<n. kl_term (ground ! i) (predicted ! i)) \<and>
     call hinge ground predicted = Inr (\<Sum>i<n. hinge_term (ground ! i) (predicted ! i)))"
  unfolding Let_def call_def
  by (simp only: L1_sum L2_sum huber_sum bce_sum ce_sum kl_sum hinge_sum simp_thms)

theorem losses_stop_at_shorter_witness:
  "length [1, 2, 7 :: real] \<noteq> length [5, 4 :: real] \<and>
   call L1 [1, 2, 7] [5, 4] = Inr 6 \<and> call L1 [5, 4] [1, 2, 7] = Inr 6 \<and>
   call hinge [1, 2, 7] [5, 4] = Inr 0"
  using losses_stop_at_shorter [of "[1, 2, 7]" "[5, 4]"]
    losses_stop_at_shorter [of "[5, 4]" "[1, 2, 7]"]
  by (simp add: Let_def lessThan_Suc numeral_2_eq_2 hinge_term_def)

section \<open>Loop variants and engine variants\<close>

text \<open>
  Claim C10. Under exact arithmetic the hand-written loop and the reduction-engine
  variant of each loss compute the same value: \<open>L1 = L1_f\<close>, \<open>L2 = L2_f\<close>,
  \<open>huber = huber_f\<close>, \<open>bce = bce_f\<close> and \<open>ce = ce_f\<close>. The loop adds from the left
  and the engine from the right; over \<^typ>\<open>real\<close> both are the sum of the same terms.
  The equalities hold for sequences of any lengths, so in particular for every pair of
  equal-length sequences and every threshold.
\<close>

theorem loop_and_engine_variants_agree:
  "L1 ground predicted = L1_f ground predicted \<and>
   L2 ground predicted = L2_f ground predicted \<and>
   huber ground predicted threshold = huber_f ground predicted threshold \<and>
   bce ground predicted = bce_f ground predicted \<and>
   ce ground predicted = ce_f ground predicted"
  by (simp only: L1_sum L1_f_sum L2_sum L2_f_sum huber_sum huber_f_sum bce_sum bce_f_sum
      ce_sum ce_f_sum simp_thms)

section \<open>Zero distance\<close>

lemma L1_zero_iff:
  assumes "length g = length p"
  shows "L1 g p = 0 \<longleftrightarrow> g = p"
proof -
  have "L1 g p = 0 \<longleftrightarrow> (\<forall>i<length g. \<bar>g ! i - p ! i\<bar> = 0)"
    using assms by (auto simp: L1_sum sum_nonneg_eq_0_iff)
  also have "\<dots> \<longleftrightarrow> g = p"
    using assms by (auto simp: list_eq_iff_nth_eq)
  finally show ?thesis .
qed

text \<open>
  Claim C7. For every sequence \<open>a\<close>, \<open>L1 a a = 0\<close> and \<open>L2 a a = 0\<close>; and for
  equal-length sequences, \<open>L1 ground predicted = 0\<close> if and only if the two sequences
  are element-wise equal.
\<close>

theorem L1_L2_zero:
  "L1 a a = 0 \<and> L2 a a = 0 \<and>
   (length ground = length predicted \<longrightarrow> (L1 ground predicted = 0 \<longleftrightarrow> ground = predicted))"
  by (simp add: L1_zero_iff) (simp add: L1_sum L2_sum)

theorem L1_L2_zero_witness:
  "L1 [1, 2] [1, 2] = 0 \<and> L2 [1, 2] [1, 2] = 0 \<and>
   length [1, 2 :: real] = length [1, 3 :: real] \<and> L1 [1, 2] [1, 3] \<noteq> 0"
  using L1_L2_zero [of "[1, 2]" "[1, 2]" "[1, 3]"] by simp

section \<open>Triplet ranking\<close>

text \<open>
  Claim C6. For all sequences \<open>anchor\<close>, \<open>positive\<close>, \<open>negative\<close> and every
  \<open>margin\<close>, the triplet-ranking loss equals
  \<open>max (L2 anchor positive - L2 anchor negative + margin) 0\<close>; in particular it is 0
  whenever \<open>L2 anchor negative - L2 anchor positive \<ge> margin\<close>. (The code calls
  \<^verbatim>\<open>L2_f\<close>, which has the value of \<^verbatim>\<open>L2\<close>.)
\<close>

theorem tr_formula:
  "tr anchor positive negative margin
     = max (L2 anchor positive - L2 anchor negative + margin) 0 \<and>
   (L2 anchor negative - L2 anchor positive \<ge> margin \<longrightarrow>
      tr anchor positive negative margin = 0)"
  by (auto simp: tr_def Let_def L2_sum L2_f_sum)

theorem tr_formula_witness:
  "L2 [0] [1] - L2 [0] [0] \<ge> 1 \<and> tr [0] [0] [1] 1 = 0 \<and> tr [0] [1] [0] 1 = 2"
  using tr_formula [of "[0]" "[0]" "[1]" 1] tr_formula [of "[0]" "[1]" "[0]" 1]
  by (simp add: L2_sum)

section \<open>Huber\<close>

text \<open>
  Claim C4. For every pair of equal-length sequences and every threshold, \<^verbatim>\<open>huber\<close> is
  the sum over all indices of \<open>h diff\<close> with \<open>diff = g - p\<close>, where \<open>h diff\<close> is
  \<open>diff\<^sup>2 / 2\<close> when the signed \<open>diff\<close> is at most the threshold, and
  \<open>threshold * \<bar>diff\<bar> - threshold / 2\<close> otherwise.
\<close>

theorem huber_formula:
  "length ground = length predicted \<Longrightarrow>
   huber ground predicted threshold =
     (\<Sum>i<length ground.
        let diff = ground ! i - predicted ! i in
        if diff \<le> threshold then diff ^ 2 / 2 else threshold * \<bar>diff\<bar> - threshold / 2)"
  by (simp add: huber_sum hbr_def Let_def)

theorem huber_formula_witness:
  "length [3, 0 :: real] = length [1, 4 :: real] \<and> huber [3, 0] [1, 4] 1 = 19 / 2"
  using huber_formula [of "[3, 0]" "[1, 4]" 1]
  by (simp add: Let_def lessThan_Suc numeral_2_eq_2)

section \<open>Non-negativity\<close>

lemma L1_L2_hinge_nonneg:
  "0 \<le> L1 ground predicted \<and> 0 \<le> L2 ground predicted \<and> 0 \<le> hinge ground predicted"
  by (simp add: L1_sum L2_sum hinge_sum hinge_term_def sum_nonneg)

text \<open>
  Claim C3. \<^verbatim>\<open>L1\<close>, \<^verbatim>\<open>L2\<close>, \<^verbatim>\<open>hinge\<close> and \<^verbatim>\<open>huber\<close> are non-negative for all
  real inputs and every threshold. \<^verbatim>\<open>L1\<close>, \<^verbatim>\<open>L2\<close> and \<^verbatim>\<open>hinge\<close> are
  (\<open>L1_L2_hinge_nonneg\<close>). \<^verbatim>\<open>huber\<close> is not: its linear branch computes
  \<open>threshold * \<bar>diff\<bar> - threshold / 2\<close>, where the Huber loss has
  \<open>threshold * (\<bar>diff\<bar> - threshold / 2)\<close>. With the threshold \<open>0.2\<close> of the
  demonstration program and the difference \<open>0.5 - 0.1 = 0.4\<close> of its fourth pair, the
  code returns \<open>0.2 * 0.4 - 0.2 / 2 = - 0.02\<close>.
\<close>

theorem huber_negative_at_demo_threshold:
  "length [5 / 10 :: real] = length [1 / 10 :: real] \<and>
   huber [5 / 10] [1 / 10] (2 / 10) = - (2 / 100) \<and>
   huber [5 / 10] [1 / 10] (2 / 10) < 0 \<and>
   huber_f [5 / 10] [1 / 10] (2 / 10) = - (2 / 100)"
  by (simp add: huber_sum huber_f_sum hbr_def)

section \<open>Softmax\<close>

subsection \<open>Below and above the thresholds\<close>











subsection \<open>Sums of doubles that stay in range\<close>









end
